theory Spec2Isabelle
  imports Main
begin

section \<open>Data model\<close>

text \<open>
  A task is the dict built by the three mock integration functions of \<open>main.py\<close>:
  five string fields. The process state is the two module-level globals: the list
  \<open>TASK_STORE\<close> and the set \<open>SYNC_SPONSORS\<close>.
\<close>

record task =
  sponsor_id :: string
  source :: string
  name :: string
  due_date :: string
  status :: string

record state =
  TASK_STORE :: "task list"
  SYNC_SPONSORS :: "string set"

definition init_state :: state where
  "init_state = \<lparr>TASK_STORE = [], SYNC_SPONSORS = {}\<rparr>"

text \<open>
  Every \<open>abort\<close> of the handlers is a value: 401, 400 and 404. An exception raised by
  an integration function is not caught anywhere in \<open>main.py\<close>, so it leaves the
  handler at the call; it is the fourth error.
\<close>

datatype error = Unauthorized | BadRequest | NotFound | SourceFetchFailure

section \<open>Authentication and request fields\<close>

definition API_KEY :: string where
  "API_KEY = ''secret-token-123''"

text \<open>The header \<open>X-API-KEY\<close> is absent (\<open>None\<close>) or a string.\<close>

definition check_api_key :: "string option \<Rightarrow> error + unit" where
  "check_api_key key = (if key \<noteq> Some API_KEY then Inl Unauthorized else Inr ())"

text \<open>
  A request field read with \<open>data.get\<close> or \<open>request.args.get\<close> is absent
  (\<open>None\<close>) or a string. Python's truth test on it, as in \<open>if not sponsor_id\<close>
  and \<open>if sponsor\<close>, holds for a present, non-empty string only. JSON values that
  are not strings are outside this model.
\<close>

definition truthy :: "string option \<Rightarrow> bool" where
  "truthy v = (case v of None \<Rightarrow> False | Some s \<Rightarrow> s \<noteq> [])"

section \<open>Mock integration functions\<close>

definition get_salesforce_tasks :: "string \<Rightarrow> task list" where
  "get_salesforce_tasks sid =
    [\<lparr>sponsor_id = sid, source = ''salesforce'', name = ''Finalize contract'',
       due_date = ''2025-08-01'', status = ''pending''\<rparr>,
     \<lparr>sponsor_id = sid, source = ''salesforce'', name = ''Upload logo'',
       due_date = ''2025-08-05'', status = ''pending''\<rparr>]"

definition get_asana_tasks :: "string \<Rightarrow> task list" where
  "get_asana_tasks sid =
    [\<lparr>sponsor_id = sid, source = ''asana'', name = ''Post campaign assets'',
       due_date = ''2025-07-30'', status = ''done''\<rparr>,
     \<lparr>sponsor_id = sid, source = ''asana'', name = ''Review creative brief'',
       due_date = ''2025-08-03'', status = ''pending''\<rparr>]"

definition get_google_calendar_tasks :: "string \<Rightarrow> task list" where
  "get_google_calendar_tasks sid =
    [\<lparr>sponsor_id = sid, source = ''google_calendar'', name = ''Activation deadline'',
       due_date = ''2025-08-10'', status = ''pending''\<rparr>,
     \<lparr>sponsor_id = sid, source = ''google_calendar'', name = ''Post-event report'',
       due_date = ''2025-08-20'', status = ''pending''\<rparr>]"

text \<open>The three lists in the order in which both callers append them.\<close>

definition mock_tasks :: "string \<Rightarrow> task list" where
  "mock_tasks sid = get_salesforce_tasks sid @ get_asana_tasks sid @ get_google_calendar_tasks sid"

text \<open>
  The handlers call the three functions by name. To say what the handlers do when a
  call raises, the three are also taken as parameters: an adapter returns its list, or
  \<open>None\<close> when it raises. \<open>mock_adapters\<close> are the functions of \<open>main.py\<close>, which
  never raise.
\<close>

type_synonym adapter = "string \<Rightarrow> task list option"

record adapters =
  fetch_salesforce :: adapter
  fetch_asana :: adapter
  fetch_google_calendar :: adapter

definition mock_adapters :: adapters where
  "mock_adapters =
    \<lparr>fetch_salesforce = (\<lambda>sid. Some (get_salesforce_tasks sid)),
     fetch_asana = (\<lambda>sid. Some (get_asana_tasks sid)),
     fetch_google_calendar = (\<lambda>sid. Some (get_google_calendar_tasks sid))\<rparr>"

text \<open>
  The block \<open>tasks = []; tasks += get_salesforce_tasks(sponsor_id); tasks +=
  get_asana_tasks(sponsor_id); tasks += get_google_calendar_tasks(sponsor_id)\<close>, which
  \<open>sync_tasks\<close> and \<open>periodic_sync\<close> both contain. The calls run in this order and
  the first one that raises ends the block.
\<close>

definition fetch_tasks :: "adapters \<Rightarrow> string \<Rightarrow> task list option" where
  "fetch_tasks A sid =
    (case fetch_salesforce A sid of
       None \<Rightarrow> None
     | Some t1 \<Rightarrow>
        (case fetch_asana A sid of
           None \<Rightarrow> None
         | Some t2 \<Rightarrow>
            (case fetch_google_calendar A sid of
               None \<Rightarrow> None
             | Some t3 \<Rightarrow> Some ((([] @ t1) @ t2) @ t3))))"

section \<open>Handlers\<close>

text \<open>
  \<open>POST /sync-tasks\<close>. The sponsor is added to \<open>SYNC_SPONSORS\<close> before the
  integration functions are called; \<open>TASK_STORE\<close> is assigned after all three returned.
\<close>

definition sync_tasks_with ::
  "adapters \<Rightarrow> string option \<Rightarrow> string option \<Rightarrow> state \<Rightarrow> (error + task list) \<times> state" where
  "sync_tasks_with A key sid st =
    (case check_api_key key of
       Inl e \<Rightarrow> (Inl e, st)
     | Inr _ \<Rightarrow>
        if \<not> truthy sid then (Inl BadRequest, st)
        else
          let s = the sid;
              st1 = st\<lparr>SYNC_SPONSORS := insert s (SYNC_SPONSORS st)\<rparr>
          in (case fetch_tasks A s of
                None \<Rightarrow> (Inl SourceFetchFailure, st1)
              | Some tasks \<Rightarrow>
                  (Inr tasks,
                   st1\<lparr>TASK_STORE :=
                         filter (\<lambda>t. sponsor_id t \<noteq> s) (TASK_STORE st1) @ tasks\<rparr>)))"

definition sync_tasks ::
  "string option \<Rightarrow> string option \<Rightarrow> state \<Rightarrow> (error + task list) \<times> state" where
  "sync_tasks key sid st = sync_tasks_with mock_adapters key sid st"

text \<open>
  \<open>GET /tasks\<close>. It reads \<open>TASK_STORE\<close> and assigns nothing; the state is returned
  as it was.
\<close>

definition list_tasks ::
  "string option \<Rightarrow> string option \<Rightarrow> string option \<Rightarrow> state \<Rightarrow> (error + task list) \<times> state" where
  "list_tasks key sponsor stat st =
    (case check_api_key key of
       Inl e \<Rightarrow> (Inl e, st)
     | Inr _ \<Rightarrow>
        let results = TASK_STORE st;
            results1 = (if truthy sponsor
                        then filter (\<lambda>t. sponsor_id t = the sponsor) results
                        else results);
            results2 = (if truthy stat
                        then filter (\<lambda>t. status t = the stat) results1
                        else results1)
        in (Inr results2, st))"

text \<open>
  \<open>PATCH /tasks\<close>. The loop walks \<open>TASK_STORE\<close> once, assigns \<open>status\<close> in the
  dicts that match and records in \<open>matched\<close> that one did. No dict occurs twice in the
  store (each sync builds fresh ones), so the assignment through the loop variable
  changes the one list element it visits.
\<close>

fun update_loop ::
  "string \<Rightarrow> string \<Rightarrow> string \<Rightarrow> string \<Rightarrow> task list \<Rightarrow> bool \<Rightarrow> task list \<times> bool" where
  "update_loop sponsor src nam new_status [] matched = ([], matched)"
| "update_loop sponsor src nam new_status (t # ts) matched =
    (if sponsor_id t = sponsor \<and> source t = src \<and> name t = nam
     then (let (ts', m) = update_loop sponsor src nam new_status ts True
           in (t\<lparr>status := new_status\<rparr> # ts', m))
     else (let (ts', m) = update_loop sponsor src nam new_status ts matched
           in (t # ts', m)))"

definition update_task_by_fields ::
  "string option \<Rightarrow> string option \<Rightarrow> string option \<Rightarrow> string option \<Rightarrow> string option \<Rightarrow>
   state \<Rightarrow> (error + bool) \<times> state" where
  "update_task_by_fields key sponsor src nam new_status st =
    (case check_api_key key of
       Inl e \<Rightarrow> (Inl e, st)
     | Inr _ \<Rightarrow>
        if \<not> (truthy sponsor \<and> truthy src \<and> truthy nam \<and> truthy new_status)
        then (Inl BadRequest, st)
        else
          let (store', matched) =
                update_loop (the sponsor) (the src) (the nam) (the new_status)
                  (TASK_STORE st) False;
              st1 = st\<lparr>TASK_STORE := store'\<rparr>
          in if \<not> matched then (Inl NotFound, st1) else (Inr True, st1))"

section \<open>Background sync job\<close>

text \<open>
  \<open>periodic_sync\<close> walks \<open>list(SYNC_SPONSORS)\<close>. The order in which Python lists a
  set is not fixed by the program, so the snapshot is a parameter: any list of the
  registered sponsors. An integration function that raises ends the whole job.
\<close>

fun periodic_sync_with :: "adapters \<Rightarrow> string list \<Rightarrow> state \<Rightarrow> (error + unit) \<times> state" where
  "periodic_sync_with A [] st = (Inr (), st)"
| "periodic_sync_with A (s # ss) st =
    (case fetch_tasks A s of
       None \<Rightarrow> (Inl SourceFetchFailure, st)
     | Some tasks \<Rightarrow>
         periodic_sync_with A ss
           (st\<lparr>TASK_STORE := filter (\<lambda>t. sponsor_id t \<noteq> s) (TASK_STORE st) @ tasks\<rparr>))"

definition periodic_sync :: "string list \<Rightarrow> state \<Rightarrow> (error + unit) \<times> state" where
  "periodic_sync snapshot st = periodic_sync_with mock_adapters snapshot st"

section \<open>Runs of the program\<close>

text \<open>
  The program changes its state through the three handlers and the background job
  only. A run is a sequence of such calls, each on the state the previous one left.
\<close>

datatype request =
    SyncTasks "string option" "string option"
  | ListTasks "string option" "string option" "string option"
  | UpdateTask "string option" "string option" "string option" "string option" "string option"
  | PeriodicSync "string list"

fun step :: "adapters \<Rightarrow> request \<Rightarrow> state \<Rightarrow> state" where
  "step A (SyncTasks key sid) st = snd (sync_tasks_with A key sid st)"
| "step A (ListTasks key sponsor stat) st = snd (list_tasks key sponsor stat st)"
| "step A (UpdateTask key sponsor src nam new_status) st =
     snd (update_task_by_fields key sponsor src nam new_status st)"
| "step A (PeriodicSync snapshot) st = snd (periodic_sync_with A snapshot st)"

definition run :: "adapters \<Rightarrow> request list \<Rightarrow> state \<Rightarrow> state" where
  "run A reqs st = fold (step A) reqs st"

section \<open>Notions used in the statements\<close>

text \<open>The business key of the update: the triple (sponsor\_id, source, name).\<close>

definition key_matches :: "string \<Rightarrow> string \<Rightarrow> string \<Rightarrow> task \<Rightarrow> bool" where
  "key_matches sponsor src nam t =
     (sponsor_id t = sponsor \<and> source t = src \<and> name t = nam)"

text \<open>
  The listing as the specification words it: a filter that is provided selects by
  equality, a filter that is omitted selects everything.
\<close>

definition ListTasks_spec :: "string option \<Rightarrow> string option \<Rightarrow> task list \<Rightarrow> task list" where
  "ListTasks_spec sponsorFilter statusFilter store =
     filter (\<lambda>t. (case sponsorFilter of None \<Rightarrow> True | Some s \<Rightarrow> sponsor_id t = s)
               \<and> (case statusFilter of None \<Rightarrow> True | Some x \<Rightarrow> status t = x)) store"

text \<open>
  What the handler's truth test makes of a filter: an absent or empty filter accepts
  every value, a non-empty one accepts the equal value.
\<close>

definition accepts :: "string option \<Rightarrow> string \<Rightarrow> bool" where
  "accepts f v = (case f of None \<Rightarrow> True | Some s \<Rightarrow> s = [] \<or> v = s)"

text \<open>
  An adapter call that raises, and adapters that answer for the sponsor they were asked
  about, as the three of \<open>main.py\<close> do.
\<close>

definition adapter_fails :: "adapters \<Rightarrow> string \<Rightarrow> bool" where
  "adapter_fails A s =
     (fetch_salesforce A s = None \<or> fetch_asana A s = None \<or> fetch_google_calendar A s = None)"

definition well_scoped :: "adapters \<Rightarrow> bool" where
  "well_scoped A =
     (\<forall>s ts. fetch_tasks A s = Some ts \<longrightarrow> (\<forall>t \<in> set ts. sponsor_id t = s))"

section \<open>The replace, statement by statement\<close>

text \<open>
  \<open>sync_tasks\<close> and \<open>periodic_sync\<close> replace a sponsor's records by two statements:
  the first assigns to \<open>TASK_STORE\<close> the list without the sponsor's records, the second
  extends \<open>TASK_STORE\<close> by the fetched list. \<open>main.py\<close> takes no lock, and the scheduler
  runs the job in a thread of its own, so another handler or the job can run between the
  two. Each statement is one step here; a thread switch inside a statement is not
  modelled.
\<close>

datatype action = RemoveOld string | ExtendNew "task list"

fun act :: "action \<Rightarrow> state \<Rightarrow> state" where
  "act (RemoveOld s) st =
     st\<lparr>TASK_STORE := filter (\<lambda>t. sponsor_id t \<noteq> s) (TASK_STORE st)\<rparr>"
| "act (ExtendNew tasks) st = st\<lparr>TASK_STORE := TASK_STORE st @ tasks\<rparr>"

definition exec :: "action list \<Rightarrow> state \<Rightarrow> state" where
  "exec acts st = fold act acts st"

text \<open>The two statements of one replace, in program order.\<close>

definition replace_actions :: "string \<Rightarrow> task list \<Rightarrow> action list" where
  "replace_actions s tasks = [RemoveOld s, ExtendNew tasks]"

section \<open>Example inputs\<close>

definition abc_state :: state where
  "abc_state = snd (sync_tasks (Some API_KEY) (Some ''sponsor-abc'') init_state)"

definition stale_state :: state where
  "stale_state =
     \<lparr>TASK_STORE =
        [\<lparr>sponsor_id = ''sponsor-abc'', source = ''asana'', name = ''Old task'',
           due_date = ''2025-01-01'', status = ''done''\<rparr>,
         \<lparr>sponsor_id = ''sponsor-xyz'', source = ''salesforce'', name = ''Upload logo'',
           due_date = ''2025-08-05'', status = ''pending''\<rparr>,
         \<lparr>sponsor_id = ''sponsor-abc'', source = ''asana'', name = ''Old task'',
           due_date = ''2025-02-02'', status = ''pending''\<rparr>],
      SYNC_SPONSORS = {''sponsor-abc'', ''sponsor-xyz''}\<rparr>"

definition flaky_adapters :: "string \<Rightarrow> adapters" where
  "flaky_adapters bad =
     mock_adapters\<lparr>fetch_asana :=
       (\<lambda>sid. if sid = bad then None else Some (get_asana_tasks sid))\<rparr>"

section \<open>Basic facts\<close>

lemma truthy_Some [simp]: "truthy (Some s) = (s \<noteq> [])"
  by (simp add: truthy_def)

lemma truthy_None [simp]: "truthy None = False"
  by (simp add: truthy_def)

lemma check_api_key_ok [simp]: "check_api_key (Some API_KEY) = Inr ()"
  by (simp add: check_api_key_def)

lemma fetch_tasks_mock: "fetch_tasks mock_adapters s = Some (mock_tasks s)"
  by (simp add: fetch_tasks_def mock_adapters_def mock_tasks_def)

lemma mock_sponsor: "t \<in> set (mock_tasks s) \<Longrightarrow> sponsor_id t = s"
  by (auto simp: mock_tasks_def get_salesforce_tasks_def get_asana_tasks_def
      get_google_calendar_tasks_def)

lemma filter_mock_same: "filter (\<lambda>t. sponsor_id t = s) (mock_tasks s) = mock_tasks s"
  by (rule filter_True) (simp add: mock_sponsor)

lemma filter_mock_other: "b \<noteq> s \<Longrightarrow> filter (\<lambda>t. sponsor_id t = b) (mock_tasks s) = []"
  by (auto simp: filter_empty_conv dest: mock_sponsor)

lemma filter_eq_neq: "filter (\<lambda>t. sponsor_id t = s) (filter (\<lambda>t. sponsor_id t \<noteq> s) xs) = []"
  by (simp add: filter_empty_conv)

lemma filter_other_neq:
  "b \<noteq> s \<Longrightarrow>
   filter (\<lambda>t. sponsor_id t = b) (filter (\<lambda>t. sponsor_id t \<noteq> s) xs) =
   filter (\<lambda>t. sponsor_id t = b) xs"
  by (induction xs) auto

lemma sync_tasks_cases:
  "sync_tasks key sid st =
    (if key \<noteq> Some API_KEY then (Inl Unauthorized, st)
     else if \<not> truthy sid then (Inl BadRequest, st)
     else (Inr (mock_tasks (the sid)),
           st\<lparr>SYNC_SPONSORS := insert (the sid) (SYNC_SPONSORS st),
              TASK_STORE :=
                filter (\<lambda>t. sponsor_id t \<noteq> the sid) (TASK_STORE st) @ mock_tasks (the sid)\<rparr>))"
  by (simp add: sync_tasks_def sync_tasks_with_def fetch_tasks_mock Let_def check_api_key_def)

section \<open>Sync replaces one sponsor's records\<close>

text \<open>
  Claim C1. For a non-empty sponsor \<open>s\<close> and any state, the manual sync with the
  valid key succeeds and returns the lists of the salesforce, asana and google\_calendar
  functions for \<open>s\<close>, appended in that order. Afterwards the stored records whose
  \<open>sponsor_id\<close> is \<open>s\<close>, read from the store directly or through the listing with
  the sponsor filter \<open>s\<close>, are exactly that list: nothing a former sync stored for
  \<open>s\<close> is left.
\<close>

theorem sync_replaces_sponsor_records:
  assumes "s \<noteq> []"
  shows "fst (sync_tasks (Some API_KEY) (Some s) st) =
           Inr (get_salesforce_tasks s @ get_asana_tasks s @ get_google_calendar_tasks s)
       \<and> filter (\<lambda>t. sponsor_id t = s) (TASK_STORE (snd (sync_tasks (Some API_KEY) (Some s) st))) =
           get_salesforce_tasks s @ get_asana_tasks s @ get_google_calendar_tasks s
       \<and> fst (list_tasks (Some API_KEY) (Some s) None
                (snd (sync_tasks (Some API_KEY) (Some s) st))) =
           Inr (get_salesforce_tasks s @ get_asana_tasks s @ get_google_calendar_tasks s)"
proof -
  let ?new = "get_salesforce_tasks s @ get_asana_tasks s @ get_google_calendar_tasks s"
  have new: "mock_tasks s = ?new"
    by (simp add: mock_tasks_def)
  have res: "fst (sync_tasks (Some API_KEY) (Some s) st) = Inr (mock_tasks s)"
    using assms by (simp add: sync_tasks_cases)
  have store: "TASK_STORE (snd (sync_tasks (Some API_KEY) (Some s) st)) =
      filter (\<lambda>t. sponsor_id t \<noteq> s) (TASK_STORE st) @ mock_tasks s"
    using assms by (simp add: sync_tasks_cases)
  have slice: "filter (\<lambda>t. sponsor_id t = s)
      (TASK_STORE (snd (sync_tasks (Some API_KEY) (Some s) st))) = mock_tasks s"
    by (simp only: store filter_append filter_eq_neq filter_mock_same append_Nil)
  have listed: "fst (list_tasks (Some API_KEY) (Some s) None
      (snd (sync_tasks (Some API_KEY) (Some s) st))) = Inr (mock_tasks s)"
    using assms slice by (simp add: list_tasks_def)
  from res slice listed show ?thesis
    by (simp only: new)
qed

theorem sync_replaces_sponsor_records_witness:
  "''sponsor-abc'' \<noteq> []
   \<and> filter (\<lambda>t. sponsor_id t = ''sponsor-abc'')
       (TASK_STORE (snd (sync_tasks (Some API_KEY) (Some ''sponsor-abc'') stale_state))) =
     get_salesforce_tasks ''sponsor-abc'' @ get_asana_tasks ''sponsor-abc''
       @ get_google_calendar_tasks ''sponsor-abc''"
  using sync_replaces_sponsor_records [of "''sponsor-abc''" stale_state] by simp

text \<open>
  Claim C2. A sync request for a sponsor other than \<open>b\<close> leaves the stored records of
  \<open>b\<close> as they were, the same records in the same order, whether the request succeeds
  or is refused. More generally the records whose \<open>sponsor_id\<close> is not the requested one
  are the same before and after: only records of the requested sponsor are removed or
  added.
\<close>

theorem sync_leaves_other_sponsors:
  "(sid \<noteq> Some b \<longrightarrow>
      filter (\<lambda>t. sponsor_id t = b) (TASK_STORE (snd (sync_tasks key sid st))) =
      filter (\<lambda>t. sponsor_id t = b) (TASK_STORE st))
   \<and> filter (\<lambda>t. Some (sponsor_id t) \<noteq> sid) (TASK_STORE (snd (sync_tasks key sid st))) =
     filter (\<lambda>t. Some (sponsor_id t) \<noteq> sid) (TASK_STORE st)"
proof (cases "key = Some API_KEY \<and> truthy sid")
  case False
  then show ?thesis
    by (auto simp: sync_tasks_cases)
next
  case True
  then obtain s where s: "sid = Some s" "s \<noteq> []"
    by (cases sid) auto
  have store: "TASK_STORE (snd (sync_tasks key sid st)) =
      filter (\<lambda>t. sponsor_id t \<noteq> s) (TASK_STORE st) @ mock_tasks s"
    using True s by (simp add: sync_tasks_cases)
  have other: "filter (\<lambda>t. sponsor_id t = b) (TASK_STORE (snd (sync_tasks key sid st))) =
      filter (\<lambda>t. sponsor_id t = b) (TASK_STORE st)" if "b \<noteq> s"
    by (simp only: store filter_append filter_other_neq [OF that] filter_mock_other [OF that]
        append_Nil2)
  have "filter (\<lambda>t. sponsor_id t \<noteq> s) (mock_tasks s) = []"
    by (auto simp: filter_empty_conv dest: mock_sponsor)
  then have rest: "filter (\<lambda>t. sponsor_id t \<noteq> s) (TASK_STORE (snd (sync_tasks key sid st))) =
      filter (\<lambda>t. sponsor_id t \<noteq> s) (TASK_STORE st)"
    by (simp add: store)
  from other rest s show ?thesis
    by auto
qed

theorem sync_leaves_other_sponsors_witness:
  "Some ''sponsor-abc'' \<noteq> Some ''sponsor-xyz''
   \<and> filter (\<lambda>t. sponsor_id t = ''sponsor-xyz'')
       (TASK_STORE (snd (sync_tasks (Some API_KEY) (Some ''sponsor-abc'') stale_state))) =
     [\<lparr>sponsor_id = ''sponsor-xyz'', source = ''salesforce'', name = ''Upload logo'',
       due_date = ''2025-08-05'', status = ''pending''\<rparr>]"
  using sync_leaves_other_sponsors
    [of "Some ''sponsor-abc''" "''sponsor-xyz''" "Some API_KEY" stale_state]
  by (simp add: stale_state_def)

section \<open>Listing\<close>

lemma list_tasks_ok:
  "list_tasks (Some API_KEY) sponsor stat st =
     (Inr (filter (\<lambda>t. accepts sponsor (sponsor_id t) \<and> accepts stat (status t)) (TASK_STORE st)), st)"
  by (cases sponsor; cases stat) (auto simp: list_tasks_def accepts_def Let_def conj_commute)

lemma list_tasks_state: "snd (list_tasks key sponsor stat st) = st"
  by (simp add: list_tasks_def check_api_key_def Let_def)

text \<open>
  Claim C4, as amended. For every store and every pair of filters, each omitted or
  provided and non-empty, the listing with the valid key returns the stored records, in
  store order, that satisfy the specification's two predicates: \<open>sponsor_id\<close> equal to
  the sponsor filter when there is one, and \<open>status\<close> equal to the status filter when
  there is one. With both omitted it returns the whole store. Whatever the key and the
  filters, the state after the call is the state before it.
\<close>

theorem list_tasks_filters:
  assumes "sponsor \<noteq> Some []" and "stat \<noteq> Some []"
  shows "list_tasks (Some API_KEY) sponsor stat st =
           (Inr (ListTasks_spec sponsor stat (TASK_STORE st)), st)
       \<and> list_tasks (Some API_KEY) None None st = (Inr (TASK_STORE st), st)
       \<and> snd (list_tasks key sponsor stat st) = st"
proof -
  have "accepts sponsor v = (case sponsor of None \<Rightarrow> True | Some s \<Rightarrow> v = s)" for v
    using assms(1) by (cases sponsor) (auto simp: accepts_def)
  moreover have "accepts stat v = (case stat of None \<Rightarrow> True | Some s \<Rightarrow> v = s)" for v
    using assms(2) by (cases stat) (auto simp: accepts_def)
  ultimately have "list_tasks (Some API_KEY) sponsor stat st =
      (Inr (ListTasks_spec sponsor stat (TASK_STORE st)), st)"
    by (simp add: list_tasks_ok ListTasks_spec_def)
  moreover have "list_tasks (Some API_KEY) None None st = (Inr (TASK_STORE st), st)"
    by (simp add: list_tasks_def)
  ultimately show ?thesis
    by (simp add: list_tasks_state)
qed

theorem list_tasks_filters_witness:
  "Some ''sponsor-xyz'' \<noteq> Some [] \<and> Some ''pending'' \<noteq> Some []
   \<and> list_tasks (Some API_KEY) (Some ''sponsor-xyz'') (Some ''pending'') stale_state =
       (Inr [\<lparr>sponsor_id = ''sponsor-xyz'', source = ''salesforce'', name = ''Upload logo'',
              due_date = ''2025-08-05'', status = ''pending''\<rparr>], stale_state)"
  using list_tasks_filters [of "Some ''sponsor-xyz''" "Some ''pending''" stale_state]
  by (simp add: ListTasks_spec_def stale_state_def)

text \<open>
  The claim as written also covers a filter provided as the empty string, and there it
  fails: after the sync of sponsor-abc into the empty store no record has an empty
  \<open>sponsor_id\<close>, so the specification's listing for that sponsor filter is empty, while
  the handler returns all six records.
\<close>

theorem list_tasks_empty_filter_counterexample:
  "fst (list_tasks (Some API_KEY) (Some []) None abc_state) = Inr (mock_tasks ''sponsor-abc'')
   \<and> ListTasks_spec (Some []) None (TASK_STORE abc_state) = []
   \<and> fst (list_tasks (Some API_KEY) (Some []) None abc_state) \<noteq>
       Inr (ListTasks_spec (Some []) None (TASK_STORE abc_state))"
  by (simp add: list_tasks_def ListTasks_spec_def abc_state_def sync_tasks_cases init_state_def
      mock_tasks_def get_salesforce_tasks_def get_asana_tasks_def get_google_calendar_tasks_def)

text \<open>
  Claim C10. A sponsor filter or status filter equal to the empty string gives the same
  answer and state as the request with that filter omitted, for every key, every other
  filter and every state. With the valid key that answer is the stored records, in store
  order, that pass the other filter alone (the other filter passes every record when it
  is omitted or empty, and the records with the equal field otherwise); with the other
  filter omitted or empty as well it is the whole store. It is not the records whose
  field is the empty string.
\<close>

theorem empty_filter_is_omitted:
  "list_tasks key (Some []) stat st = list_tasks key None stat st
   \<and> list_tasks key sponsor (Some []) st = list_tasks key sponsor None st
   \<and> list_tasks (Some API_KEY) (Some []) stat st =
       (Inr (filter (\<lambda>t. stat = None \<or> stat = Some [] \<or> stat = Some (status t))
               (TASK_STORE st)), st)
   \<and> list_tasks (Some API_KEY) sponsor (Some []) st =
       (Inr (filter (\<lambda>t. sponsor = None \<or> sponsor = Some [] \<or> sponsor = Some (sponsor_id t))
               (TASK_STORE st)), st)
   \<and> list_tasks (Some API_KEY) (Some []) None st = (Inr (TASK_STORE st), st)
   \<and> list_tasks (Some API_KEY) None (Some []) st = (Inr (TASK_STORE st), st)
   \<and> list_tasks (Some API_KEY) (Some []) (Some []) st = (Inr (TASK_STORE st), st)"
proof -
  have same: "list_tasks key (Some []) stat st = list_tasks key None stat st
      \<and> list_tasks key sponsor (Some []) st = list_tasks key sponsor None st"
    by (simp add: list_tasks_def check_api_key_def)
  have by_status: "list_tasks (Some API_KEY) (Some []) stat st =
      (Inr (filter (\<lambda>t. stat = None \<or> stat = Some [] \<or> stat = Some (status t))
              (TASK_STORE st)), st)"
    by (cases stat) (auto simp: list_tasks_def Let_def intro!: filter_cong)
  have by_sponsor: "list_tasks (Some API_KEY) sponsor (Some []) st =
      (Inr (filter (\<lambda>t. sponsor = None \<or> sponsor = Some [] \<or> sponsor = Some (sponsor_id t))
              (TASK_STORE st)), st)"
    by (cases sponsor) (auto simp: list_tasks_def Let_def intro!: filter_cong)
  have whole: "list_tasks (Some API_KEY) (Some []) None st = (Inr (TASK_STORE st), st)
      \<and> list_tasks (Some API_KEY) None (Some []) st = (Inr (TASK_STORE st), st)
      \<and> list_tasks (Some API_KEY) (Some []) (Some []) st = (Inr (TASK_STORE st), st)"
    by (simp add: list_tasks_def)
  from same by_status by_sponsor whole show ?thesis
    by (simp only: simp_thms)
qed

theorem empty_filter_is_omitted_witness:
  "fst (list_tasks (Some API_KEY) (Some []) None abc_state) = Inr (mock_tasks ''sponsor-abc'')
   \<and> map name (projr (fst (list_tasks (Some API_KEY) (Some []) (Some ''done'') abc_state))) =
       [''Post campaign assets'']
   \<and> filter (\<lambda>t. sponsor_id t = []) (TASK_STORE abc_state) = []"
proof -
  note inst = empty_filter_is_omitted
    [where key = "Some API_KEY" and stat = "Some ''done''" and st = abc_state
       and sponsor = None]
  from inst have whole: "list_tasks (Some API_KEY) (Some []) None abc_state =
      (Inr (TASK_STORE abc_state), abc_state)"
    by blast
  from inst have listed: "list_tasks (Some API_KEY) (Some []) (Some ''done'') abc_state =
      (Inr (filter (\<lambda>t. Some ''done'' = None \<or> Some ''done'' = Some []
                      \<or> Some ''done'' = Some (status t)) (TASK_STORE abc_state)), abc_state)"
    by blast
  have store: "TASK_STORE abc_state = mock_tasks ''sponsor-abc''"
    by (simp add: abc_state_def sync_tasks_cases init_state_def)
  show ?thesis
    by (simp add: whole listed store mock_tasks_def get_salesforce_tasks_def
        get_asana_tasks_def get_google_calendar_tasks_def)
qed

section \<open>Update by fields\<close>

lemma update_loop_map:
  "update_loop sp so nm ns ts m =
     (map (\<lambda>t. if key_matches sp so nm t then t\<lparr>status := ns\<rparr> else t) ts,
      m \<or> (\<exists>t \<in> set ts. key_matches sp so nm t))"
  by (induction ts arbitrary: m) (auto simp: key_matches_def)

lemma map_no_match:
  "\<not> (\<exists>t \<in> set ts. key_matches sp so nm t) \<Longrightarrow>
   map (\<lambda>t. if key_matches sp so nm t then t\<lparr>status := ns\<rparr> else t) ts = ts"
  by (induction ts) auto

text \<open>
  Claim C5. For four non-empty fields and the valid key: if some stored record has the
  triple (sponsor\_id, source, name), the update succeeds and the new store is the old
  one with \<open>status\<close> set to the new value in every record with that triple and every
  other record as it was, at the same positions; if none has, it answers not-found and
  the state is the state before the call. The store keeps its length in both cases.
\<close>

theorem update_status_match_or_fail:
  assumes "sp \<noteq> []" and "so \<noteq> []" and "nm \<noteq> []" and "ns \<noteq> []"
  shows "update_task_by_fields (Some API_KEY) (Some sp) (Some so) (Some nm) (Some ns) st =
     (if \<exists>t \<in> set (TASK_STORE st). key_matches sp so nm t
      then (Inr True,
            st\<lparr>TASK_STORE :=
                 map (\<lambda>t. if key_matches sp so nm t then t\<lparr>status := ns\<rparr> else t)
                   (TASK_STORE st)\<rparr>)
      else (Inl NotFound, st))
   \<and> length (TASK_STORE (snd (update_task_by_fields (Some API_KEY) (Some sp) (Some so)
         (Some nm) (Some ns) st))) = length (TASK_STORE st)"
  using assms
  by (auto simp: update_task_by_fields_def update_loop_map map_no_match Let_def)

theorem update_status_match_or_fail_witness:
  "''sponsor-abc'' \<noteq> [] \<and> ''asana'' \<noteq> [] \<and> ''Old task'' \<noteq> [] \<and> ''archived'' \<noteq> []
   \<and> fst (update_task_by_fields (Some API_KEY) (Some ''sponsor-abc'') (Some ''asana'')
         (Some ''Old task'') (Some ''archived'') stale_state) = Inr True
   \<and> map status (TASK_STORE (snd (update_task_by_fields (Some API_KEY) (Some ''sponsor-abc'')
         (Some ''asana'') (Some ''Old task'') (Some ''archived'') stale_state))) =
       [''archived'', ''pending'', ''archived'']"
  using update_status_match_or_fail
    [of "''sponsor-abc''" "''asana''" "''Old task''" "''archived''" stale_state]
  by (simp add: stale_state_def key_matches_def)

section \<open>Invalid input\<close>

text \<open>
  Claim C7. A sync request whose \<open>sponsor_id\<close> is absent or empty, and an update
  request in which one of \<open>sponsor_id\<close>, \<open>source\<close>, \<open>name\<close>, \<open>status\<close> is absent or
  empty, are answered with the bad-request error when the key is valid, fail for every
  key, and leave the whole state, task store and registered sponsors, as it was.
\<close>

theorem invalid_input_no_mutation:
  "(\<not> truthy sid \<longrightarrow>
      sync_tasks (Some API_KEY) sid st = (Inl BadRequest, st)
      \<and> snd (sync_tasks key sid st) = st
      \<and> (\<exists>e. fst (sync_tasks key sid st) = Inl e))
   \<and> (\<not> (truthy sponsor \<and> truthy src \<and> truthy nam \<and> truthy new_status) \<longrightarrow>
      update_task_by_fields (Some API_KEY) sponsor src nam new_status st = (Inl BadRequest, st)
      \<and> snd (update_task_by_fields key sponsor src nam new_status st) = st
      \<and> (\<exists>e. fst (update_task_by_fields key sponsor src nam new_status st) = Inl e))"
  by (simp add: sync_tasks_cases update_task_by_fields_def check_api_key_def)

theorem invalid_input_no_mutation_witness:
  "\<not> truthy (Some [])
   \<and> sync_tasks (Some API_KEY) (Some []) stale_state = (Inl BadRequest, stale_state)
   \<and> \<not> (truthy (Some ''sponsor-abc'') \<and> truthy (Some ''asana'') \<and> truthy None
         \<and> truthy (Some ''done''))
   \<and> update_task_by_fields (Some API_KEY) (Some ''sponsor-abc'') (Some ''asana'') None
       (Some ''done'') stale_state = (Inl BadRequest, stale_state)"
  using invalid_input_no_mutation
    [of "Some []" stale_state "Some API_KEY" "Some ''sponsor-abc''" "Some ''asana''" None
      "Some ''done''"]
  by simp

section \<open>The sponsor-abc scenario\<close>

text \<open>
  Claim C8. From the empty store, the sync of sponsor-abc leaves six records, two of
  each source in the order salesforce, asana, google\_calendar, all pending but the asana
  record Post campaign assets, which is done. The update of (sponsor-abc, salesforce,
  Finalize contract) to done then succeeds and changes the first record's status and
  nothing else, and the listing with the status filter done returns exactly two records:
  Finalize contract and Post campaign assets.
\<close>

theorem scenario_sponsor_abc:
  "let st1 = snd (sync_tasks (Some API_KEY) (Some ''sponsor-abc'') init_state);
       r2 = update_task_by_fields (Some API_KEY) (Some ''sponsor-abc'') (Some ''salesforce'')
              (Some ''Finalize contract'') (Some ''done'') st1;
       st2 = snd r2;
       r3 = list_tasks (Some API_KEY) None (Some ''done'') st2
   in length (TASK_STORE st1) = 6
      \<and> map sponsor_id (TASK_STORE st1) = replicate 6 ''sponsor-abc''
      \<and> map source (TASK_STORE st1) =
          [''salesforce'', ''salesforce'', ''asana'', ''asana'', ''google_calendar'',
           ''google_calendar'']
      \<and> map name (TASK_STORE st1) =
          [''Finalize contract'', ''Upload logo'', ''Post campaign assets'',
           ''Review creative brief'', ''Activation deadline'', ''Post-event report'']
      \<and> map status (TASK_STORE st1) =
          [''pending'', ''pending'', ''done'', ''pending'', ''pending'', ''pending'']
      \<and> fst r2 = Inr True
      \<and> TASK_STORE st2 = (TASK_STORE st1)[0 := (TASK_STORE st1 ! 0)\<lparr>status := ''done''\<rparr>]
      \<and> map status (TASK_STORE st2) =
          [''done'', ''pending'', ''done'', ''pending'', ''pending'', ''pending'']
      \<and> fst r3 = Inr [TASK_STORE st2 ! 0, TASK_STORE st2 ! 2]
      \<and> map name [TASK_STORE st2 ! 0, TASK_STORE st2 ! 2] =
          [''Finalize contract'', ''Post campaign assets'']"
  by (simp add: Let_def sync_tasks_cases init_state_def mock_tasks_def
      get_salesforce_tasks_def get_asana_tasks_def get_google_calendar_tasks_def
      update_task_by_fields_def list_tasks_def eval_nat_numeral)

section \<open>Registered sponsors\<close>

lemma periodic_sync_sponsors:
  "SYNC_SPONSORS (snd (periodic_sync_with A snapshot st)) = SYNC_SPONSORS st"
  by (induction snapshot arbitrary: st) (auto split: option.splits)

lemma update_sponsors:
  "SYNC_SPONSORS (snd (update_task_by_fields key sponsor src nam new_status st)) =
     SYNC_SPONSORS st"
  by (auto simp: update_task_by_fields_def check_api_key_def Let_def split: prod.splits)

lemma sync_sponsors:
  "SYNC_SPONSORS (snd (sync_tasks_with A key sid st)) =
     (if key = Some API_KEY \<and> truthy sid then insert (the sid) (SYNC_SPONSORS st)
      else SYNC_SPONSORS st)"
  by (auto simp: sync_tasks_with_def check_api_key_def Let_def split: option.splits)

lemma step_sponsors: "SYNC_SPONSORS st \<subseteq> SYNC_SPONSORS (step A r st)"
  by (cases r) (auto simp: sync_sponsors periodic_sync_sponsors update_sponsors list_tasks_state)

lemma run_sponsors: "SYNC_SPONSORS st \<subseteq> SYNC_SPONSORS (run A reqs st)"
  unfolding run_def
proof (induction reqs arbitrary: st)
  case Nil
  show ?case by simp
next
  case (Cons r reqs)
  have "SYNC_SPONSORS st \<subseteq> SYNC_SPONSORS (step A r st)"
    by (rule step_sponsors)
  also have "\<dots> \<subseteq> SYNC_SPONSORS (fold (step A) reqs (step A r st))"
    by (rule Cons.IH)
  finally show ?case by simp
qed

lemma run_repeated_sync:
  "s \<noteq> [] \<Longrightarrow>
   SYNC_SPONSORS (run A (replicate (Suc n) (SyncTasks (Some API_KEY) (Some s))) st) =
     insert s (SYNC_SPONSORS st)"
  unfolding run_def
  by (induction n arbitrary: st) (simp_all add: sync_sponsors)

text \<open>
  Claim C3. Along every run of the program, whatever the handlers called, their
  arguments, the snapshots of the background job and the adapters, every sponsor
  registered at the start is registered at the end. A manual sync of a non-empty sponsor
  with the valid key, repeated a positive number of times, leaves the registered set
  equal to the former set with that one sponsor inserted; from the initial state the set
  is the singleton of that sponsor.
\<close>

theorem registered_sponsors_only_grow:
  "SYNC_SPONSORS st \<subseteq> SYNC_SPONSORS (run A reqs st)
   \<and> (s \<noteq> [] \<and> 0 < n \<longrightarrow>
        SYNC_SPONSORS (run A (replicate n (SyncTasks (Some API_KEY) (Some s))) st) =
          insert s (SYNC_SPONSORS st)
        \<and> SYNC_SPONSORS (run A (replicate n (SyncTasks (Some API_KEY) (Some s))) init_state) =
          {s})"
proof -
  have "SYNC_SPONSORS (run A (replicate n (SyncTasks (Some API_KEY) (Some s))) st') =
      insert s (SYNC_SPONSORS st')" if "s \<noteq> []" "0 < n" for st'
  proof -
    from that(2) obtain m where "n = Suc m"
      by (cases n) auto
    with run_repeated_sync [OF that(1), of A m st'] show ?thesis
      by simp
  qed
  then show ?thesis
    by (simp add: run_sponsors init_state_def)
qed

theorem registered_sponsors_only_grow_witness:
  "''sponsor-abc'' \<noteq> [] \<and> (0::nat) < 3
   \<and> SYNC_SPONSORS (run mock_adapters
        (replicate 3 (SyncTasks (Some API_KEY) (Some ''sponsor-abc''))) init_state) =
      {''sponsor-abc''}
   \<and> SYNC_SPONSORS stale_state \<subseteq>
      SYNC_SPONSORS (run mock_adapters
        [SyncTasks (Some API_KEY) (Some ''sponsor-new''), PeriodicSync [''sponsor-abc''],
         ListTasks (Some API_KEY) None None,
         UpdateTask (Some API_KEY) (Some ''sponsor-new'') (Some ''asana'')
           (Some ''Post campaign assets'') (Some ''pending'')] stale_state)"
  using registered_sponsors_only_grow [of init_state mock_adapters "[]" "''sponsor-abc''" 3]
    registered_sponsors_only_grow [of stale_state mock_adapters
        "[SyncTasks (Some API_KEY) (Some ''sponsor-new''), PeriodicSync [''sponsor-abc''],
         ListTasks (Some API_KEY) None None,
         UpdateTask (Some API_KEY) (Some ''sponsor-new'') (Some ''asana'')
           (Some ''Post campaign assets'') (Some ''pending'')]" "''x''" 0]
  by (simp add: init_state_def)

section \<open>Failure of an adapter\<close>

lemma fetch_tasks_fails: "adapter_fails A s \<Longrightarrow> fetch_tasks A s = None"
  by (auto simp: adapter_fails_def fetch_tasks_def split: option.splits)

lemma periodic_sync_failure:
  assumes "fetch_tasks A s = None" and "s \<in> set snapshot" and "well_scoped A"
  shows "fst (periodic_sync_with A snapshot st) = Inl SourceFetchFailure
       \<and> filter (\<lambda>t. sponsor_id t = s) (TASK_STORE (snd (periodic_sync_with A snapshot st))) =
           filter (\<lambda>t. sponsor_id t = s) (TASK_STORE st)"
  using assms(2)
proof (induction snapshot arbitrary: st)
  case Nil
  then show ?case by simp
next
  case (Cons s' ss)
  show ?case
  proof (cases "fetch_tasks A s'")
    case None
    then show ?thesis by simp
  next
    case (Some tasks)
    with assms(1) have neq: "s \<noteq> s'"
      by auto
    with Cons.prems have mem: "s \<in> set ss"
      by simp
    from Some assms(3) have "\<forall>t \<in> set tasks. sponsor_id t = s'"
      by (simp add: well_scoped_def)
    with neq have none: "filter (\<lambda>t. sponsor_id t = s) tasks = []"
      by (auto simp: filter_empty_conv)
    let ?st = "st\<lparr>TASK_STORE := filter (\<lambda>t. sponsor_id t \<noteq> s') (TASK_STORE st) @ tasks\<rparr>"
    have "filter (\<lambda>t. sponsor_id t = s) (TASK_STORE ?st) =
        filter (\<lambda>t. sponsor_id t = s) (TASK_STORE st)"
      using none by (simp add: filter_other_neq [OF neq] del: filter_filter)
    with Cons.IH [OF mem, of ?st] Some show ?thesis
      by simp
  qed
qed

lemma fetch_tasks_succeeds: "\<not> adapter_fails A s \<Longrightarrow> \<exists>tasks. fetch_tasks A s = Some tasks"
  by (auto simp: adapter_fails_def fetch_tasks_def)

text \<open>
  Claim C6. The integration functions of \<open>main.py\<close> never raise, so the claim is about
  the handlers with the adapters as parameters. If a call of one of the three adapters
  for sponsor \<open>s\<close> raises, the manual sync for \<open>s\<close> ends with the failure and
  \<open>TASK_STORE\<close> is what it was; the background job whose snapshot contains \<open>s\<close> ends
  with the failure and the stored records of \<open>s\<close> are what they were, given adapters
  that only return records of the sponsor asked for. If none of the three raises, the
  manual sync replaces the records of \<open>s\<close> by the whole fetched list.
\<close>

theorem adapter_failure_leaves_store:
  "(adapter_fails A s \<and> s \<noteq> [] \<longrightarrow>
      fst (sync_tasks_with A (Some API_KEY) (Some s) st) = Inl SourceFetchFailure
      \<and> TASK_STORE (snd (sync_tasks_with A (Some API_KEY) (Some s) st)) = TASK_STORE st)
   \<and> (adapter_fails A s \<and> s \<in> set snapshot \<and> well_scoped A \<longrightarrow>
      fst (periodic_sync_with A snapshot st) = Inl SourceFetchFailure
      \<and> filter (\<lambda>t. sponsor_id t = s) (TASK_STORE (snd (periodic_sync_with A snapshot st))) =
         filter (\<lambda>t. sponsor_id t = s) (TASK_STORE st))
   \<and> (\<not> adapter_fails A s \<and> s \<noteq> [] \<longrightarrow>
      (\<exists>tasks. fetch_tasks A s = Some tasks
         \<and> sync_tasks_with A (Some API_KEY) (Some s) st =
             (Inr tasks,
              st\<lparr>SYNC_SPONSORS := insert s (SYNC_SPONSORS st),
                 TASK_STORE := filter (\<lambda>t. sponsor_id t \<noteq> s) (TASK_STORE st) @ tasks\<rparr>)))"
proof (cases "adapter_fails A s")
  case True
  then have none: "fetch_tasks A s = None"
    by (rule fetch_tasks_fails)
  then have "s \<noteq> [] \<longrightarrow>
      fst (sync_tasks_with A (Some API_KEY) (Some s) st) = Inl SourceFetchFailure
      \<and> TASK_STORE (snd (sync_tasks_with A (Some API_KEY) (Some s) st)) = TASK_STORE st"
    by (simp add: sync_tasks_with_def Let_def)
  with periodic_sync_failure [OF none] True show ?thesis
    by blast
next
  case False
  then obtain tasks where "fetch_tasks A s = Some tasks"
    using fetch_tasks_succeeds by blast
  with False show ?thesis
    by (simp add: sync_tasks_with_def Let_def)
qed

lemma flaky_well_scoped: "well_scoped (flaky_adapters bad)"
  by (auto simp: well_scoped_def flaky_adapters_def mock_adapters_def fetch_tasks_def
      get_salesforce_tasks_def get_asana_tasks_def get_google_calendar_tasks_def
      split: if_splits)

theorem adapter_failure_leaves_store_witness:
  "adapter_fails (flaky_adapters ''sponsor-abc'') ''sponsor-abc''
   \<and> ''sponsor-abc'' \<noteq> []
   \<and> ''sponsor-abc'' \<in> set [''sponsor-xyz'', ''sponsor-abc'']
   \<and> well_scoped (flaky_adapters ''sponsor-abc'')
   \<and> sync_tasks_with (flaky_adapters ''sponsor-abc'') (Some API_KEY) (Some ''sponsor-abc'')
        stale_state = (Inl SourceFetchFailure, stale_state)
   \<and> fst (periodic_sync_with (flaky_adapters ''sponsor-abc'')
        [''sponsor-xyz'', ''sponsor-abc''] stale_state) = Inl SourceFetchFailure
   \<and> map name (filter (\<lambda>t. sponsor_id t = ''sponsor-abc'')
        (TASK_STORE (snd (periodic_sync_with (flaky_adapters ''sponsor-abc'')
           [''sponsor-xyz'', ''sponsor-abc''] stale_state)))) = [''Old task'', ''Old task'']"
proof -
  have f: "adapter_fails (flaky_adapters ''sponsor-abc'') ''sponsor-abc''"
    by (simp add: adapter_fails_def flaky_adapters_def)
  have w: "well_scoped (flaky_adapters ''sponsor-abc'')"
    by (rule flaky_well_scoped)
  have s: "sync_tasks_with (flaky_adapters ''sponsor-abc'') (Some API_KEY) (Some ''sponsor-abc'')
        stale_state = (Inl SourceFetchFailure, stale_state)"
    by (simp add: sync_tasks_with_def fetch_tasks_def flaky_adapters_def mock_adapters_def
        stale_state_def Let_def insert_absorb)
  from adapter_failure_leaves_store
    [of "flaky_adapters ''sponsor-abc''" "''sponsor-abc''" stale_state
      "[''sponsor-xyz'', ''sponsor-abc'']"] f w
  have "fst (periodic_sync_with (flaky_adapters ''sponsor-abc'')
        [''sponsor-xyz'', ''sponsor-abc''] stale_state) = Inl SourceFetchFailure
     \<and> filter (\<lambda>t. sponsor_id t = ''sponsor-abc'')
        (TASK_STORE (snd (periodic_sync_with (flaky_adapters ''sponsor-abc'')
           [''sponsor-xyz'', ''sponsor-abc''] stale_state))) =
       filter (\<lambda>t. sponsor_id t = ''sponsor-abc'') (TASK_STORE stale_state)"
    by simp
  with f w s show ?thesis
    by (simp add: stale_state_def)
qed

section \<open>The replace under interleaving\<close>

lemma exec_replace:
  "exec (replace_actions s tasks) st =
     st\<lparr>TASK_STORE := filter (\<lambda>t. sponsor_id t \<noteq> s) (TASK_STORE st) @ tasks\<rparr>"
  by (simp add: exec_def replace_actions_def)

lemma exec_append: "exec (xs @ ys) st = exec ys (exec xs st)"
  by (simp add: exec_def)

lemma filter_own_tasks:
  "\<forall>t \<in> set tasks. sponsor_id t = s \<Longrightarrow> filter (\<lambda>t. sponsor_id t = s) tasks = tasks"
  by (rule filter_True) simp

lemma filter_replaced:
  assumes "\<forall>t \<in> set tasks. sponsor_id t = s"
  shows "filter (\<lambda>t. sponsor_id t = s) (TASK_STORE (exec (replace_actions s tasks) st)) = tasks"
  by (simp add: exec_replace filter_eq_neq filter_own_tasks [OF assms] del: filter_filter)

text \<open>
  Claim C9, as amended. The two statements of a replace, run with no other access to the
  store in between, are the replace of the manual sync and of the background job. Run
  so, a replace for \<open>s\<close> with a list of records of \<open>s\<close> leaves exactly that list as the
  stored records of \<open>s\<close>, and the listing for \<open>s\<close> after it returns that list; two
  replaces for \<open>s\<close> run one after the other leave exactly the list of the second. The
  records of any other sponsor are the same before the replace, between its two
  statements and after it.
\<close>

theorem replace_serial:
  assumes "s \<noteq> []" and "\<forall>t \<in> set new1. sponsor_id t = s" and "\<forall>t \<in> set new2. sponsor_id t = s"
  shows "snd (sync_tasks (Some API_KEY) (Some s) st) =
           exec (replace_actions s (mock_tasks s))
             (st\<lparr>SYNC_SPONSORS := insert s (SYNC_SPONSORS st)\<rparr>)
       \<and> snd (periodic_sync [s] st) = exec (replace_actions s (mock_tasks s)) st
       \<and> filter (\<lambda>t. sponsor_id t = s) (TASK_STORE (exec (replace_actions s new1) st)) = new1
       \<and> fst (list_tasks (Some API_KEY) (Some s) None (exec (replace_actions s new1) st)) =
           Inr new1
       \<and> filter (\<lambda>t. sponsor_id t = s)
           (TASK_STORE (exec (replace_actions s new1 @ replace_actions s new2) st)) = new2
       \<and> (b \<noteq> s \<longrightarrow>
            filter (\<lambda>t. sponsor_id t = b) (TASK_STORE (act (RemoveOld s) st)) =
              filter (\<lambda>t. sponsor_id t = b) (TASK_STORE st)
            \<and> filter (\<lambda>t. sponsor_id t = b) (TASK_STORE (exec (replace_actions s new1) st)) =
              filter (\<lambda>t. sponsor_id t = b) (TASK_STORE st))"
proof -
  have handler: "snd (sync_tasks (Some API_KEY) (Some s) st) =
      exec (replace_actions s (mock_tasks s))
        (st\<lparr>SYNC_SPONSORS := insert s (SYNC_SPONSORS st)\<rparr>)"
    using assms(1) by (simp add: sync_tasks_cases exec_replace)
  have job: "snd (periodic_sync [s] st) = exec (replace_actions s (mock_tasks s)) st"
    by (simp add: periodic_sync_def fetch_tasks_mock exec_replace)
  have slice: "filter (\<lambda>t. sponsor_id t = s)
      (TASK_STORE (exec (replace_actions s new1) st)) = new1"
    by (rule filter_replaced [OF assms(2)])
  have listed: "fst (list_tasks (Some API_KEY) (Some s) None
      (exec (replace_actions s new1) st)) = Inr new1"
    using assms(1) slice by (simp add: list_tasks_def)
  have twice: "filter (\<lambda>t. sponsor_id t = s)
      (TASK_STORE (exec (replace_actions s new1 @ replace_actions s new2) st)) = new2"
    by (simp only: exec_append filter_replaced [OF assms(3)])
  have other: "filter (\<lambda>t. sponsor_id t = b) (TASK_STORE (act (RemoveOld s) st)) =
        filter (\<lambda>t. sponsor_id t = b) (TASK_STORE st)
      \<and> filter (\<lambda>t. sponsor_id t = b) (TASK_STORE (exec (replace_actions s new1) st)) =
        filter (\<lambda>t. sponsor_id t = b) (TASK_STORE st)" if "b \<noteq> s"
  proof -
    from that assms(2) have "filter (\<lambda>t. sponsor_id t = b) new1 = []"
      by (auto simp: filter_empty_conv)
    then show ?thesis
      by (simp add: exec_replace filter_other_neq [OF that] del: filter_filter)
  qed
  from handler job slice listed twice other show ?thesis
    by blast
qed

theorem replace_serial_witness:
  "''sponsor-abc'' \<noteq> []
   \<and> list_all (\<lambda>t. sponsor_id t = ''sponsor-abc'') (get_asana_tasks ''sponsor-abc'')
   \<and> list_all (\<lambda>t. sponsor_id t = ''sponsor-abc'') (get_salesforce_tasks ''sponsor-abc'')
   \<and> filter (\<lambda>t. sponsor_id t = ''sponsor-abc'')
       (TASK_STORE (exec (replace_actions ''sponsor-abc'' (get_asana_tasks ''sponsor-abc'')
          @ replace_actions ''sponsor-abc'' (get_salesforce_tasks ''sponsor-abc''))
          stale_state)) = get_salesforce_tasks ''sponsor-abc''
   \<and> filter (\<lambda>t. sponsor_id t = ''sponsor-xyz'')
       (TASK_STORE (act (RemoveOld ''sponsor-abc'') stale_state)) =
     filter (\<lambda>t. sponsor_id t = ''sponsor-xyz'') (TASK_STORE stale_state)"
proof -
  have a: "\<forall>t \<in> set (get_asana_tasks ''sponsor-abc''). sponsor_id t = ''sponsor-abc''"
    by (simp add: get_asana_tasks_def)
  have b: "\<forall>t \<in> set (get_salesforce_tasks ''sponsor-abc''). sponsor_id t = ''sponsor-abc''"
    by (simp add: get_salesforce_tasks_def)
  have n: "''sponsor-abc'' \<noteq> []"
    by simp
  have ne: "''sponsor-xyz'' \<noteq> ''sponsor-abc''"
    by simp
  note r = replace_serial [OF n a b, of stale_state "''sponsor-xyz''"]
  note twice = r [THEN conjunct2, THEN conjunct2, THEN conjunct2, THEN conjunct2, THEN conjunct1]
  note other = r [THEN conjunct2, THEN conjunct2, THEN conjunct2, THEN conjunct2,
    THEN conjunct2, THEN mp, OF ne, THEN conjunct1]
  from a have la: "list_all (\<lambda>t. sponsor_id t = ''sponsor-abc'') (get_asana_tasks ''sponsor-abc'')"
    by (simp only: list_all_iff)
  from b have lb:
    "list_all (\<lambda>t. sponsor_id t = ''sponsor-abc'') (get_salesforce_tasks ''sponsor-abc'')"
    by (simp only: list_all_iff)
  from n la lb twice other show ?thesis
    by (intro conjI)
qed

text \<open>
  The claim as written fails on the code. After one sync of sponsor-abc the listing for
  that sponsor returns the six records. A second sync computes the same six; between its
  two statements the same listing returns no record, a state with the old records removed
  and the new ones not yet inserted. When the statements of two replaces for sponsor-abc
  interleave as remove, remove, extend, extend, the store holds twelve records for the
  sponsor, the list of either replace twice over.
\<close>

theorem replace_not_atomic_counterexample:
  "fst (list_tasks (Some API_KEY) (Some ''sponsor-abc'') None abc_state) =
     Inr (mock_tasks ''sponsor-abc'')
   \<and> length (mock_tasks ''sponsor-abc'') = 6
   \<and> fst (list_tasks (Some API_KEY) (Some ''sponsor-abc'') None
        (act (RemoveOld ''sponsor-abc'') abc_state)) = Inr []
   \<and> fst (list_tasks (Some API_KEY) (Some ''sponsor-abc'') None
        (exec (replace_actions ''sponsor-abc'' (mock_tasks ''sponsor-abc'')) abc_state)) =
       Inr (mock_tasks ''sponsor-abc'')
   \<and> TASK_STORE (exec [RemoveOld ''sponsor-abc'', RemoveOld ''sponsor-abc'',
        ExtendNew (mock_tasks ''sponsor-abc''), ExtendNew (mock_tasks ''sponsor-abc'')]
        abc_state) = mock_tasks ''sponsor-abc'' @ mock_tasks ''sponsor-abc''
   \<and> length (TASK_STORE (exec [RemoveOld ''sponsor-abc'', RemoveOld ''sponsor-abc'',
        ExtendNew (mock_tasks ''sponsor-abc''), ExtendNew (mock_tasks ''sponsor-abc'')]
        abc_state)) = 12"
  by (simp add: list_tasks_def abc_state_def sync_tasks_cases init_state_def exec_def
      replace_actions_def mock_tasks_def get_salesforce_tasks_def get_asana_tasks_def
      get_google_calendar_tasks_def)

end
